theory Spec2Isabelle
  imports Complex_Main
begin

section \<open>Strings of the host language\<close>

text \<open>
  The program is JavaScript. A string is modelled as a list of characters, an index or a
  length as an \<open>int\<close> (the program uses \<open>-1\<close> for "not found"). A character of the model
  is one of the 256 code units below \<open>0x100\<close>, the Latin-1 range of the program's strings;
  white space, the case mappings and the word characters below are those the program's
  string functions and regular expressions use on that range.
\<close>

text \<open>
  The white space \<open>trim\<close> removes: tab, line feed, vertical tab, form feed, carriage
  return, space and the no-break space \<open>U+00A0\<close>.
\<close>

definition isSpace :: "char \<Rightarrow> bool" where
  "isSpace c = (of_char c \<in> {9, 10, 11, 12, 13, 32, 160 :: nat})"

text \<open>\<open>s.trim()\<close>\<close>

definition trim :: "string \<Rightarrow> string" where
  "trim s = rev (dropWhile isSpace (rev (dropWhile isSpace s)))"

text \<open>\<open>s.replace(/^@+/, "")\<close>\<close>

definition stripAt :: "string \<Rightarrow> string" where
  "stripAt s = dropWhile (\<lambda>c. c = CHR ''@'') s"

text \<open>\<open>s.startsWith(p)\<close>\<close>

definition startsWith :: "string \<Rightarrow> string \<Rightarrow> bool" where
  "startsWith s p = (take (length p) s = p)"

text \<open>
  \<open>s.indexOf(needle, position)\<close>: the position is clamped to \<open>0 .. length s\<close>, the result
  is the first index at or after it where \<open>needle\<close> occurs, or \<open>-1\<close>.
  \<open>findFrom needle rest k\<close> scans \<open>rest\<close>, the part of the string that starts at index \<open>k\<close>.
\<close>

fun findFrom :: "string \<Rightarrow> string \<Rightarrow> nat \<Rightarrow> int" where
  "findFrom needle [] k = (if needle = [] then int k else -1)"
| "findFrom needle (c # cs) k =
     (if startsWith (c # cs) needle then int k else findFrom needle cs (Suc k))"

definition clampIndex :: "string \<Rightarrow> int \<Rightarrow> nat" where
  "clampIndex s i = nat (min (max i 0) (int (length s)))"

definition indexOf :: "string \<Rightarrow> string \<Rightarrow> int \<Rightarrow> int" where
  "indexOf s needle position = findFrom needle (drop (clampIndex s position) s) (clampIndex s position)"

text \<open>\<open>s.lastIndexOf(needle)\<close>: the last index where \<open>needle\<close> occurs, or \<open>-1\<close>.\<close>

fun lastFrom :: "string \<Rightarrow> string \<Rightarrow> nat \<Rightarrow> int \<Rightarrow> int" where
  "lastFrom needle [] k found = (if needle = [] then int k else found)"
| "lastFrom needle (c # cs) k found =
     lastFrom needle cs (Suc k) (if startsWith (c # cs) needle then int k else found)"

definition lastIndexOf :: "string \<Rightarrow> string \<Rightarrow> int" where
  "lastIndexOf s needle = lastFrom needle s 0 (-1)"

text \<open>\<open>s.substring(start)\<close>\<close>

definition substring :: "string \<Rightarrow> int \<Rightarrow> string" where
  "substring s start = drop (clampIndex s start) s"

text \<open>
  \<open>s.toLowerCase()\<close> maps \<open>A\<close> to \<open>Z\<close> and the Latin-1 capitals \<open>U+00C0\<close> to \<open>U+00DE\<close>
  (without the multiplication sign \<open>U+00D7\<close>) to the letter 32 code units above, and
  leaves every other character of the range as it is.
\<close>

definition isUpperLetter :: "char \<Rightarrow> bool" where
  "isUpperLetter c = (let n = (of_char c :: nat) in
     (65 \<le> n \<and> n \<le> 90) \<or> (192 \<le> n \<and> n \<le> 222 \<and> n \<noteq> 215))"

definition toLowerChar :: "char \<Rightarrow> char" where
  "toLowerChar c = (if isUpperLetter c then char_of (of_char c + 32 :: nat) else c)"

text \<open>
  A regular expression with the flag \<open>i\<close> (and without \<open>u\<close>) compares two characters by
  their canonical forms, the upper-case letter where it is one code unit: \<open>a\<close> to \<open>z\<close> and
  \<open>U+00E0\<close> to \<open>U+00FE\<close> (without the division sign \<open>U+00F7\<close>) go to the letter 32 code
  units below. The sharp s \<open>U+00DF\<close> has no upper case of one code unit and stays. The
  micro sign \<open>U+00B5\<close> and \<open>U+00FF\<close> have canonical forms above the range (\<open>U+039C\<close>,
  \<open>U+0178\<close>) that no other character of the range shares; \<open>toUpperChar\<close> leaves them as
  they are, which compares them with every character of the range as the program does.
\<close>

definition isLowerLetter :: "char \<Rightarrow> bool" where
  "isLowerLetter c = (let n = (of_char c :: nat) in
     (97 \<le> n \<and> n \<le> 122) \<or> (224 \<le> n \<and> n \<le> 254 \<and> n \<noteq> 247))"

definition toUpperChar :: "char \<Rightarrow> char" where
  "toUpperChar c = (if isLowerLetter c then char_of (of_char c - 32 :: nat) else c)"

definition toLowerCase :: "string \<Rightarrow> string" where
  "toLowerCase s = map toLowerChar s"

text \<open>
  The regular expression of strategy 4 is \<open>\b\<close>, the name with every special character
  escaped, \<open>\b\<close>, with the flag \<open>i\<close>: a case-insensitive occurrence of the literal name with
  a word boundary on each side; a word character is an ASCII letter, a digit or the
  underscore. \<open>regexSearch s name\<close> is the \<open>index\<close> of \<open>s.match(regex)\<close>, \<open>None\<close> when
  there is no match.
\<close>

definition isWordChar :: "char \<Rightarrow> bool" where
  "isWordChar c = (let n = (of_char c :: nat) in
     (48 \<le> n \<and> n \<le> 57) \<or> (65 \<le> n \<and> n \<le> 90) \<or> (97 \<le> n \<and> n \<le> 122) \<or> n = 95)"

definition isWordAt :: "string \<Rightarrow> int \<Rightarrow> bool" where
  "isWordAt s i = (0 \<le> i \<and> i < int (length s) \<and> isWordChar (s ! nat i))"

definition boundaryAt :: "string \<Rightarrow> nat \<Rightarrow> bool" where
  "boundaryAt s p = (isWordAt s (int p - 1) \<noteq> isWordAt s (int p))"

definition matchAt :: "string \<Rightarrow> string \<Rightarrow> nat \<Rightarrow> bool" where
  "matchAt s name p =
     (boundaryAt s p
      \<and> map toUpperChar (take (length name) (drop p s)) = map toUpperChar name
      \<and> boundaryAt s (p + length name))"

definition regexSearch :: "string \<Rightarrow> string \<Rightarrow> nat option" where
  "regexSearch s name = find (matchAt s name) [0 ..< Suc (length s)]"

text \<open>\<open>String(n)\<close> for an integer \<open>n\<close>, and \<open>xs.join(",")\<close>.\<close>

definition digitChar :: "nat \<Rightarrow> char" where
  "digitChar d = char_of (48 + d)"

function showNat :: "nat \<Rightarrow> string" where
  "showNat n = (if n < 10 then [digitChar n] else showNat (n div 10) @ [digitChar (n mod 10)])"
  by pat_completeness auto
termination
  by (relation "measure (\<lambda>n. n)") auto

declare showNat.simps [simp del]

definition showInt :: "int \<Rightarrow> string" where
  "showInt i = (if i < 0 then CHR ''-'' # showNat (nat (- i)) else showNat (nat i))"

fun join :: "string \<Rightarrow> string list \<Rightarrow> string" where
  "join sep [] = []"
| "join sep [x] = x"
| "join sep (x # y # ys) = x @ sep @ join sep (y # ys)"

section \<open>buildMentionData\<close>

text \<open>
  A mention as the caller passes it: \<open>tag\<close> and \<open>id\<close> are \<open>None\<close> when the field is
  absent, \<open>fromIndex\<close> is \<open>Some i\<close> exactly when \<open>Number.isInteger(m.fromIndex)\<close>.
\<close>

record mention =
  tag :: "string option"
  id_str :: "string option"
  fromIndex :: "int option"

record mention_data =
  mention_ids :: string
  mention_offsets :: string
  mention_lengths :: string
  mention_types :: string

text \<open>
  The search for one mention: the four forward strategies from \<open>start\<close>, then the last
  occurrence anywhere, then the cursor. The result is \<open>(idx, adj)\<close>.
\<close>

definition strategy1 :: "string \<Rightarrow> string \<Rightarrow> string \<Rightarrow> int \<Rightarrow> int \<times> int" where
  "strategy1 base raw name start =
     (if startsWith raw ''@''
      then (let idx = indexOf base raw start
            in if idx \<noteq> -1 then (idx, int (length raw) - int (length name)) else (idx, 0))
      else (-1, 0))"

definition strategy2 :: "string \<Rightarrow> string \<Rightarrow> int \<Rightarrow> int \<times> int \<Rightarrow> int \<times> int" where
  "strategy2 base name start r =
     (if fst r = -1 then (indexOf base name start, 0) else r)"

definition strategy3 :: "string \<Rightarrow> string \<Rightarrow> int \<Rightarrow> int \<times> int \<Rightarrow> int \<times> int" where
  "strategy3 base name start r =
     (if fst r = -1 then (indexOf (toLowerCase base) (toLowerCase name) start, 0) else r)"

definition strategy4 :: "string \<Rightarrow> string \<Rightarrow> int \<Rightarrow> int \<times> int \<Rightarrow> int \<times> int" where
  "strategy4 base name start r =
     (if fst r = -1
      then (case regexSearch (substring base start) name of
              Some k \<Rightarrow> (start + int k, 0)
            | None \<Rightarrow> r)
      else r)"

definition forward :: "string \<Rightarrow> string \<Rightarrow> string \<Rightarrow> int \<Rightarrow> int \<times> int" where
  "forward base raw name start =
     strategy4 base name start (strategy3 base name start (strategy2 base name start
       (strategy1 base raw name start)))"

definition fallback :: "string \<Rightarrow> string \<Rightarrow> int \<Rightarrow> int \<times> int \<Rightarrow> int \<times> int" where
  "fallback base name cursor r =
     (if fst r < 0
      then (let idx = lastIndexOf base name
            in if idx = -1 then (max cursor (int (length base)), 0) else (idx, 0))
      else r)"

definition locate :: "string \<Rightarrow> string \<Rightarrow> string \<Rightarrow> int \<Rightarrow> int \<Rightarrow> int \<times> int" where
  "locate base raw name start cursor = fallback base name cursor (forward base raw name start)"

text \<open>The state of the loop over the mentions.\<close>

record build_state =
  ids :: "string list"
  offsets :: "int list"
  lengths :: "int list"
  types :: "string list"
  cursor :: int

definition rawOf :: "mention \<Rightarrow> string" where
  "rawOf m = trim (case tag m of None \<Rightarrow> [] | Some t \<Rightarrow> t)"

definition nameOf :: "mention \<Rightarrow> string" where
  "nameOf m = trim (stripAt (rawOf m))"

definition idOf :: "mention \<Rightarrow> string" where
  "idOf m = (case id_str m of None \<Rightarrow> ''0'' | Some i \<Rightarrow> if i = [] then ''0'' else i)"

definition mentionStep :: "string \<Rightarrow> build_state \<Rightarrow> mention \<Rightarrow> build_state" where
  "mentionStep base st m =
     (let raw = rawOf m; name = nameOf m in
      if name = [] then st
      else
        let start = (case fromIndex m of Some i \<Rightarrow> i | None \<Rightarrow> cursor st);
            r = locate base raw name start (cursor st);
            off = max 0 (fst r + snd r);
            nameLen = int (length name)
        in \<lparr> ids = ids st @ [idOf m],
             offsets = offsets st @ [off],
             lengths = lengths st @ [nameLen],
             types = types st @ [''p''],
             cursor = off + nameLen \<rparr>)"

definition initialBuild :: build_state where
  "initialBuild = \<lparr> ids = [], offsets = [], lengths = [], types = [], cursor = 0 \<rparr>"

definition mentionLoop :: "string \<Rightarrow> mention list \<Rightarrow> build_state" where
  "mentionLoop base ms = foldl (mentionStep base) initialBuild ms"

text \<open>
  \<open>buildMentionData(msg, baseBody)\<close>, on the mentions array of \<open>msg\<close>: \<open>None\<close> is the
  program's \<open>null\<close>.
\<close>

definition buildMentionData :: "mention list \<Rightarrow> string \<Rightarrow> mention_data option" where
  "buildMentionData ms baseBody =
     (if ms = [] then None
      else
        let st = mentionLoop baseBody ms in
        if ids st = [] then None
        else Some \<lparr> mention_ids = join '','' (ids st),
                    mention_offsets = join '','' (map showInt (offsets st)),
                    mention_lengths = join '','' (map showInt (lengths st)),
                    mention_types = join '','' (types st) \<rparr>)"

text \<open>
  Notions used to state how the offsets are ordered. \<open>startOf\<close> is the index the search
  for a mention starts at: its \<open>fromIndex\<close>, or the cursor. \<open>forwardOnly\<close> follows the loop
  and holds when every mention that is not skipped is searched from the cursor or later
  and is not resolved by the last-occurrence fallback: it is found by one of the four
  forward strategies, or its name occurs nowhere in the body. \<open>ordered\<close> is the loop
  invariant: the offsets so far are non-decreasing and none lies after the cursor.
\<close>

definition startOf :: "build_state \<Rightarrow> mention \<Rightarrow> int" where
  "startOf st m = (case fromIndex m of Some i \<Rightarrow> i | None \<Rightarrow> cursor st)"

fun forwardOnly :: "string \<Rightarrow> build_state \<Rightarrow> mention list \<Rightarrow> bool" where
  "forwardOnly base st [] = True"
| "forwardOnly base st (m # ms) =
     ((nameOf m = []
        \<or> (cursor st \<le> startOf st m
            \<and> (0 \<le> fst (forward base (rawOf m) (nameOf m) (startOf st m))
                 \<or> lastIndexOf base (nameOf m) = -1)))
      \<and> forwardOnly base (mentionStep base st m) ms)"

definition ordered :: "build_state \<Rightarrow> bool" where
  "ordered st = (sorted (offsets st) \<and> list_all (\<lambda>x. x \<le> cursor st) (offsets st) \<and> 0 \<le> cursor st)"

definition alice :: mention where
  "alice = \<lparr> tag = Some ''@Alice'', id_str = Some ''1'', fromIndex = None \<rparr>"

definition bob :: mention where
  "bob = \<lparr> tag = Some ''@Bob'', id_str = Some ''2'', fromIndex = None \<rparr>"

definition aliceFromStart :: mention where
  "aliceFromStart = \<lparr> tag = Some ''@Alice'', id_str = Some ''1'', fromIndex = Some 0 \<rparr>"

definition bobFrom10 :: mention where
  "bobFrom10 = \<lparr> tag = Some ''@Bob'', id_str = Some ''2'', fromIndex = Some 10 \<rparr>"

section \<open>Values of the host language\<close>

text \<open>
  A decoded JSON value. A value of the program that may also be \<open>undefined\<close> is a
  \<open>json option\<close>, with \<open>None\<close> for \<open>undefined\<close>. An object holds one binding per key.
\<close>

datatype json =
    JNull
  | JBool bool
  | JNum real
  | JStr string
  | JArr "json list"
  | JObj "(string \<times> json) list"

text \<open>
  What the program takes from its platform and does not define itself: \<open>JSON.parse\<close> on a
  text (\<open>None\<close> when it throws), \<open>JSON.stringify\<close>, and the text of a number.
\<close>

record platform =
  JSON_parse :: "string \<Rightarrow> json option"
  JSON_stringify :: "json \<Rightarrow> string"
  Number_toString :: "real \<Rightarrow> string"

text \<open>\<open>String(v)\<close>: an array is its elements joined by commas, \<open>null\<close> elements empty.\<close>

fun toStr :: "platform \<Rightarrow> json \<Rightarrow> string"
  and toStrs :: "platform \<Rightarrow> json list \<Rightarrow> string list" where
  "toStr pf JNull = ''null''"
| "toStr pf (JBool b) = (if b then ''true'' else ''false'')"
| "toStr pf (JNum r) = Number_toString pf r"
| "toStr pf (JStr s) = s"
| "toStr pf (JArr xs) = join '','' (toStrs pf xs)"
| "toStr pf (JObj kvs) = ''[object Object]''"
| "toStrs pf [] = []"
| "toStrs pf (x # xs) = (if x = JNull then [] else toStr pf x) # toStrs pf xs"

definition String :: "platform \<Rightarrow> json option \<Rightarrow> string" where
  "String pf v = (case v of None \<Rightarrow> ''undefined'' | Some j \<Rightarrow> toStr pf j)"

text \<open>\<open>v.key\<close> for a value that is not \<open>null\<close>, for the keys the program reads (none of
  them is a property of a string, a number or an array), and \<open>xs[i]\<close>.\<close>

definition getProp :: "json \<Rightarrow> string \<Rightarrow> json option" where
  "getProp v key = (case v of JObj kvs \<Rightarrow> map_of kvs key | _ \<Rightarrow> None)"

definition elemAt :: "json list \<Rightarrow> nat \<Rightarrow> json option" where
  "elemAt xs i = (if i < length xs then Some (xs ! i) else None)"

text \<open>\<open>obj.key = v\<close> on the bindings of an object.\<close>

fun assign :: "string \<Rightarrow> json \<Rightarrow> (string \<times> json) list \<Rightarrow> (string \<times> json) list" where
  "assign key v [] = [(key, v)]"
| "assign key v ((k, w) # kvs) = (if k = key then (k, v) # kvs else (k, w) # assign key v kvs)"

section \<open>publishWithAck\<close>

subsection \<open>extractIdsFromPayload\<close>

record extracted =
  ex_threadID :: "string option"
  ex_messageID :: "string option"

text \<open>The two tests \<open>walk\<close> makes on an array \<open>n\<close>, before it descends into its elements.\<close>

definition visit :: "platform \<Rightarrow> json list \<Rightarrow> extracted \<Rightarrow> extracted" where
  "visit pf n ex =
     (let ex1 =
        (if elemAt n 0 = Some (JNum 5)
            \<and> (elemAt n 1 = Some (JStr ''replaceOptimsiticMessage'')
               \<or> elemAt n 1 = Some (JStr ''replaceOptimisticMessage''))
         then ex\<lparr> ex_messageID := Some (String pf (elemAt n 3)) \<rparr>
         else ex)
      in
        if elemAt n 0 = Some (JNum 5) \<and> elemAt n 1 = Some (JStr ''writeCTAIdToThreadsTable'')
        then (case elemAt n 2 of
                Some (JArr a) \<Rightarrow>
                  if elemAt a 0 = Some (JNum 19)
                  then ex1\<lparr> ex_threadID := Some (String pf (elemAt a 1)) \<rparr>
                  else ex1
              | _ \<Rightarrow> ex1)
        else ex1)"

fun walk :: "platform \<Rightarrow> json \<Rightarrow> extracted \<Rightarrow> extracted"
  and walkAll :: "platform \<Rightarrow> json list \<Rightarrow> extracted \<Rightarrow> extracted" where
  "walk pf (JArr n) ex = walkAll pf n (visit pf n ex)"
| "walk pf JNull ex = ex"
| "walk pf (JBool b) ex = ex"
| "walk pf (JNum r) ex = ex"
| "walk pf (JStr s) ex = ex"
| "walk pf (JObj kvs) ex = ex"
| "walkAll pf [] ex = ex"
| "walkAll pf (x # xs) ex = walkAll pf xs (walk pf x ex)"

text \<open>\<open>payload?.step\<close> is \<open>undefined\<close> for \<open>null\<close> and for a value without that key.\<close>

definition extractIdsFromPayload :: "platform \<Rightarrow> json option \<Rightarrow> extracted" where
  "extractIdsFromPayload pf payload =
     (case Option.bind payload (\<lambda>p. getProp p ''step'') of
        None \<Rightarrow> \<lparr> ex_threadID = None, ex_messageID = None \<rparr>
      | Some n \<Rightarrow> walk pf n \<lparr> ex_threadID = None, ex_messageID = None \<rparr>)"

subsection \<open>The state a call works on\<close>

text \<open>
  The errors the program reports, each an object \<open>{error: "..."}\<close> in the program except
  the transport's own error and the \<open>TypeError\<close> of calling a string.
\<close>

datatype error =
    NotConnected
  | ThreadIDExpected
  | BadMessageType string
  | SendMessageUnavailable
  | MentionsRequired
  | BuildFailed
  | Timeout
  | Transport string
  | TypeError

record bodies =
  body :: "string option"
  messageID :: "string option"
  threadID :: "string option"

datatype outcome = Failure error | Success bodies

datatype promise = Pending | Fulfilled bodies | Rejected error

text \<open>The callback a call holds: none, the caller's, or the default one of \<open>sendMention\<close>,
  which settles \<open>returnPromise\<close>.\<close>

datatype callback = NoCallback | UserCallback | DefaultCallback

text \<open>
  The message argument of \<open>sendMention\<close>. \<open>utils.getType(msg)\<close> is \<open>String\<close>, \<open>Object\<close> or
  another type name. Of an object the program reads \<open>body\<close> (a string, as the function
  documents it) and \<open>attachment\<close>, both \<open>None\<close> when \<open>null\<close> or absent, and \<open>mentions\<close>:
  absent or falsy, a truthy value that is not an array, or an array of mention objects.
  \<open>msg_rest\<close> holds its other fields.
\<close>

datatype mentions_field = NoMentions | NotAnArray | Mentions "mention list"

record msg_object =
  msg_body :: "string option"
  msg_attachment :: "json option"
  msg_mentions :: mentions_field
  msg_rest :: "(string \<times> json) list"

datatype message = MsgString string | MsgObject msg_object | MsgOther string

text \<open>
  Everything a call does to the world outside it, in the order it does it: the calls on
  the transport (\<open>on\<close>, \<open>removeListener\<close>, \<open>publish\<close> with its topic, payload, \<open>qos\<close> and
  \<open>retain\<close>), \<open>setTimeout\<close>, each invocation of the caller's callback, of \<open>threadID\<close> as a callback
  and of \<open>api.sendMessage\<close>. Calls of the logger are not part of the model. A listener is
  named by a number: the closure \<open>handleRes\<close> of one call is one listener.
\<close>

datatype action =
    On string nat
  | RemoveListener string nat
  | Publish string string nat bool
  | SetTimeout nat
  | Callback outcome
  | ThreadCallback error
  | SendMessage msg_object string callback "string option"

record state =
  done_flag :: bool
  listeners :: "nat list"
  promise :: promise
  returnPromise :: promise
  trace :: "action list"

text \<open>What one call of \<open>publishWithAck\<close> closes over.\<close>

record ack_env =
  env_platform :: platform
  env_reqID :: real
  env_text :: string
  env_callback :: callback
  env_handler :: nat

definition settle :: "outcome \<Rightarrow> promise \<Rightarrow> promise" where
  "settle r p = (case p of Pending \<Rightarrow> (case r of Failure e \<Rightarrow> Rejected e | Success b \<Rightarrow> Fulfilled b)
                | Fulfilled b \<Rightarrow> Fulfilled b | Rejected e \<Rightarrow> Rejected e)"

text \<open>\<open>resolve(bodies)\<close> and \<open>reject(err)\<close> of the promise \<open>publishWithAck\<close> returns: a
  settled promise stays as it is.\<close>

definition resolve :: "bodies \<Rightarrow> state \<Rightarrow> state" where
  "resolve b st = st\<lparr> promise := settle (Success b) (promise st) \<rparr>"

definition reject :: "error \<Rightarrow> state \<Rightarrow> state" where
  "reject e st = st\<lparr> promise := settle (Failure e) (promise st) \<rparr>"

text \<open>\<open>callback && callback(err, data)\<close>\<close>

definition invoke :: "callback \<Rightarrow> outcome \<Rightarrow> state \<Rightarrow> state" where
  "invoke cb r st =
     (case cb of
        NoCallback \<Rightarrow> st
      | UserCallback \<Rightarrow> st\<lparr> trace := trace st @ [Callback r] \<rparr>
      | DefaultCallback \<Rightarrow> st\<lparr> returnPromise := settle r (returnPromise st) \<rparr>)"

text \<open>The transport: \<open>on\<close> appends a listener, \<open>removeListener\<close> removes its most recently
  added instance.\<close>

definition removeLast :: "nat \<Rightarrow> nat list \<Rightarrow> nat list" where
  "removeLast h ls = rev (remove1 h (rev ls))"

definition mqtt_on :: "nat \<Rightarrow> state \<Rightarrow> state" where
  "mqtt_on h st = st\<lparr> listeners := listeners st @ [h], trace := trace st @ [On ''message'' h] \<rparr>"

definition mqtt_removeListener :: "nat \<Rightarrow> state \<Rightarrow> state" where
  "mqtt_removeListener h st =
     st\<lparr> listeners := removeLast h (listeners st), trace := trace st @ [RemoveListener ''message'' h] \<rparr>"

definition mqtt_publish :: "string \<Rightarrow> string \<Rightarrow> nat \<Rightarrow> bool \<Rightarrow> state \<Rightarrow> state" where
  "mqtt_publish topic payload qos retain st = st\<lparr> trace := trace st @ [Publish topic payload qos retain] \<rparr>"

definition setTimeout :: "nat \<Rightarrow> state \<Rightarrow> state" where
  "setTimeout ms st = st\<lparr> trace := trace st @ [SetTimeout ms] \<rparr>"

subsection \<open>cleanup and handleRes\<close>

definition cleanup :: "ack_env \<Rightarrow> state \<Rightarrow> state" where
  "cleanup env st =
     (if done_flag st then st
      else mqtt_removeListener (env_handler env) (st\<lparr> done_flag := True \<rparr>))"

text \<open>
  The two decode stages of \<open>handleRes\<close>, inside its \<open>try\<close>. The first parses the text of
  the message. The second reads \<open>jsonMsg.payload\<close> (a \<open>TypeError\<close> on \<open>null\<close>, \<open>undefined\<close>
  on anything that is not an object with that key), parses it as JSON text, which throws
  for \<open>undefined\<close>, and stores the result back. \<open>None\<close> is the \<open>catch\<close>.
\<close>

definition decodeOuter :: "platform \<Rightarrow> string \<Rightarrow> json option" where
  "decodeOuter pf message = JSON_parse pf message"

definition decodeInner :: "platform \<Rightarrow> json \<Rightarrow> json option" where
  "decodeInner pf jsonMsg =
     (case jsonMsg of
        JObj kvs \<Rightarrow>
          (case map_of kvs ''payload'' of
             None \<Rightarrow> None
           | Some v \<Rightarrow>
               (case JSON_parse pf (toStr pf v) of
                  None \<Rightarrow> None
                | Some p \<Rightarrow> Some (JObj (assign ''payload'' p kvs))))
      | _ \<Rightarrow> None)"

text \<open>The message \<open>handleRes\<close> acts on: both stages succeed and \<open>request_id\<close> is the
  number \<open>reqID\<close>. The result is the decoded message.\<close>

definition accepted :: "ack_env \<Rightarrow> string \<Rightarrow> json option" where
  "accepted env message =
     (case decodeOuter (env_platform env) message of
        None \<Rightarrow> None
      | Some j \<Rightarrow>
          (case decodeInner (env_platform env) j of
             None \<Rightarrow> None
           | Some jsonMsg \<Rightarrow>
               if getProp jsonMsg ''request_id'' \<noteq> Some (JNum (env_reqID env)) then None
               else Some jsonMsg))"

definition handleRes :: "ack_env \<Rightarrow> string \<Rightarrow> string \<Rightarrow> state \<Rightarrow> state" where
  "handleRes env topic message st =
     (if topic \<noteq> ''/ls_resp'' then st
      else case accepted env message of
        None \<Rightarrow> st
      | Some jsonMsg \<Rightarrow>
          let ex = extractIdsFromPayload (env_platform env) (getProp jsonMsg ''payload'');
              b = \<lparr> body = (if env_text env = [] then None else Some (env_text env)),
                    messageID = ex_messageID ex,
                    threadID = ex_threadID ex \<rparr>
          in resolve b (invoke (env_callback env) (Success b) (cleanup env st)))"

subsection \<open>The call and what happens after it\<close>

text \<open>
  \<open>publishWithAck\<close> itself: the promise's executor runs at once. It registers the
  listener, publishes and starts the timer.
\<close>

definition publishWithAck :: "ack_env \<Rightarrow> json \<Rightarrow> state \<Rightarrow> state" where
  "publishWithAck env content st =
     setTimeout 15000
       (mqtt_publish ''/ls_req'' (JSON_stringify (env_platform env) content) 1 False
         (mqtt_on (env_handler env) (st\<lparr> done_flag := False, promise := Pending \<rparr>)))"

text \<open>
  What can happen afterwards: the transport emits a message (each registered listener is
  called with it), the transport calls the publish callback (with an error or without),
  the timer fires.
\<close>

datatype event =
    Message string string
  | PublishCallback "string option"
  | TimerFired

fun step :: "ack_env \<Rightarrow> state \<Rightarrow> event \<Rightarrow> state" where
  "step env st (Message topic message) =
     (if env_handler env \<in> set (listeners st) then handleRes env topic message st else st)"
| "step env st (PublishCallback None) = st"
| "step env st (PublishCallback (Some e)) =
     reject (Transport e) (invoke (env_callback env) (Failure (Transport e)) (cleanup env st))"
| "step env st TimerFired =
     (if done_flag st then st
      else reject Timeout (invoke (env_callback env) (Failure Timeout) (cleanup env st)))"

definition run :: "ack_env \<Rightarrow> state \<Rightarrow> event list \<Rightarrow> state" where
  "run env st es = foldl (step env) st es"

section \<open>sendMention\<close>

subsection \<open>The correlation identifier\<close>

text \<open>
  \<open>Math.floor(100 + Math.random() * 900)\<close> is computed in double precision: the product
  and the sum are each rounded to the nearest double, ties to even. \<open>fl\<close> is that
  rounding, for magnitudes below the overflow threshold: a double with exponent \<open>e\<close> is
  a multiple of \<open>2 ^ (e - 52)\<close>, and the exponent does not go below \<open>-1022\<close>.
\<close>

definition roundTiesEven :: "real \<Rightarrow> int" where
  "roundTiesEven x =
     (if x - of_int \<lfloor>x\<rfloor> < 1 / 2 then \<lfloor>x\<rfloor>
      else if 1 / 2 < x - of_int \<lfloor>x\<rfloor> then \<lfloor>x\<rfloor> + 1
      else if even \<lfloor>x\<rfloor> then \<lfloor>x\<rfloor> else \<lfloor>x\<rfloor> + 1)"

definition exponentOf :: "real \<Rightarrow> int" where
  "exponentOf x = max \<lfloor>log 2 \<bar>x\<bar>\<rfloor> (- 1022)"

definition ulp :: "real \<Rightarrow> real" where
  "ulp x = 2 powr real_of_int (exponentOf x - 52)"

definition fl :: "real \<Rightarrow> real" where
  "fl x = (if x = 0 then 0 else real_of_int (roundTiesEven (x / ulp x)) * ulp x)"

definition reqID :: "real \<Rightarrow> int" where
  "reqID random = \<lfloor>fl (100 + fl (random * 900))\<rfloor>"

subsection \<open>The envelope\<close>

text \<open>
  What a call takes from outside the program: the platform, the values of
  \<open>Math.random()\<close> (for the identifier, and its text in base 64 for the trace id), the
  two readings of \<open>Date.now()\<close>, \<open>utils.generateOfflineThreadingID()\<close>, and the name
  of the listener it creates.
\<close>

record environment =
  the_platform :: platform
  random_reqID :: real
  random_trace :: string
  now_epoch :: int
  now_watermark :: int
  offlineThreadingID :: json
  new_handler :: nat

definition hasLinks :: "string \<Rightarrow> bool" where
  "hasLinks s =
     list_ex (\<lambda>p. indexOf (toLowerCase s) p 0 \<noteq> -1)
       [''http://'', ''https://'', ''www.'', ''t.me/'', ''fb.me/'', ''youtu.be/'',
        ''facebook.com/'', ''youtube.com/'']"

definition mentionDataJson :: "mention_data \<Rightarrow> json" where
  "mentionDataJson d =
     JObj [(''mention_ids'', JStr (mention_ids d)),
           (''mention_offsets'', JStr (mention_offsets d)),
           (''mention_lengths'', JStr (mention_lengths d)),
           (''mention_types'', JStr (mention_types d))]"

definition payload0 :: "environment \<Rightarrow> string \<Rightarrow> string \<Rightarrow> mention_data \<Rightarrow> string option \<Rightarrow> json" where
  "payload0 e thread baseBody mentionData replyToMessage =
     JObj ([(''thread_id'', JStr thread),
            (''otid'', offlineThreadingID e),
            (''source'', JNum 2097153),
            (''send_type'', JNum 1),
            (''sync_group'', JNum 1),
            (''mark_thread_read'', JNum 1),
            (''text'', if baseBody = [] then JNull else JStr baseBody),
            (''initiating_source'', JNum 0),
            (''skip_url_preview_gen'', JNum 0),
            (''text_has_links'', JNum (if hasLinks baseBody then 1 else 0)),
            (''multitab_env'', JNum 0),
            (''metadata_dataclass'',
               JStr (JSON_stringify (the_platform e)
                 (JObj [(''media_accessibility_metadata'', JObj [(''alt_text'', JNull)])]))),
            (''mention_data'', mentionDataJson mentionData)]
           @ (case replyToMessage of
                None \<Rightarrow> []
              | Some r \<Rightarrow>
                  if r = [] then []
                  else [(''reply_metadata'',
                          JObj [(''reply_source_id'', JStr r),
                                (''reply_source_type'', JNum 1),
                                (''reply_type'', JNum 0)])]))"

text \<open>The two tasks, each with its payload already serialised. \<open>reply_metadata\<close> above
  is added when \<open>replyToMessage\<close> is truthy: present and not the empty string.\<close>

definition tasks :: "environment \<Rightarrow> string \<Rightarrow> string \<Rightarrow> mention_data \<Rightarrow> string option \<Rightarrow> json list" where
  "tasks e thread baseBody mentionData replyToMessage =
     [JObj [(''label'', JStr ''46''),
            (''payload'', JStr (JSON_stringify (the_platform e)
               (payload0 e thread baseBody mentionData replyToMessage))),
            (''queue_name'', JStr thread),
            (''task_id'', JNum 400),
            (''failure_count'', JNull)],
      JObj [(''label'', JStr ''21''),
            (''payload'', JStr (JSON_stringify (the_platform e)
               (JObj [(''thread_id'', JStr thread),
                      (''last_read_watermark_ts'', JNum (real_of_int (now_watermark e))),
                      (''sync_group'', JNum 1)]))),
            (''queue_name'', JStr thread),
            (''task_id'', JNum 401),
            (''failure_count'', JNull)]]"

definition epoch :: "environment \<Rightarrow> string" where
  "epoch e = showInt (now_epoch e * 2 ^ 22)"

definition data_trace_id :: "environment \<Rightarrow> string" where
  "data_trace_id e = CHR ''#'' # rev (dropWhile (\<lambda>c. c = CHR ''='') (rev (random_trace e)))"

definition content :: "environment \<Rightarrow> string \<Rightarrow> string \<Rightarrow> mention_data \<Rightarrow> string option \<Rightarrow> json" where
  "content e thread baseBody mentionData replyToMessage =
     JObj [(''app_id'', JStr ''2220391788200892''),
           (''payload'', JStr (JSON_stringify (the_platform e)
              (JObj [(''tasks'', JArr (tasks e thread baseBody mentionData replyToMessage)),
                     (''epoch_id'', JStr (epoch e)),
                     (''version_id'', JStr ''24804310205905615''),
                     (''data_trace_id'', JStr (data_trace_id e))]))),
           (''request_id'', JNum (real_of_int (reqID (random_reqID e)))),
           (''type'', JNum 3)]"

subsection \<open>The function\<close>

text \<open>
  The other arguments. \<open>threadID\<close> is a function or a value, given by its \<open>String\<close>.
  The last two arguments are a callback (given or not) and \<open>replyToMessage\<close>, or a string
  in the place of the callback with no \<open>replyToMessage\<close>, which the program takes for
  \<open>replyToMessage\<close>. A string in the place of the callback together with a
  \<open>replyToMessage\<close> is outside the model.
\<close>

datatype thread_arg = ThreadFunction | Thread string

datatype tail_args = Tail bool "string option" | ReplyAsCallback string

text \<open>\<open>connected\<close>: \<open>ctx.mqttClient\<close> exists and reports \<open>connected\<close>. \<open>hasSendMessage\<close>:
  \<open>api.sendMessage\<close> exists. \<open>client_listeners\<close>: the listeners the transport holds.\<close>

record ctx =
  connected :: bool
  hasSendMessage :: bool
  client_listeners :: "nat list"

datatype result = Threw error | Returned

definition idle :: "nat list \<Rightarrow> state" where
  "idle ls = \<lparr> done_flag = False, listeners = ls, promise = Pending, returnPromise = Pending, trace = [] \<rparr>"

definition callbackOf :: "tail_args \<Rightarrow> callback" where
  "callbackOf t = (case t of Tail given r \<Rightarrow> if given then UserCallback else DefaultCallback
                  | ReplyAsCallback s \<Rightarrow> DefaultCallback)"

definition replyOf :: "tail_args \<Rightarrow> string option" where
  "replyOf t = (case t of Tail given r \<Rightarrow> r | ReplyAsCallback s \<Rightarrow> Some s)"

definition objectOf :: "message \<Rightarrow> msg_object" where
  "objectOf msg =
     (case msg of
        MsgObject m \<Rightarrow> m
      | MsgString s \<Rightarrow> \<lparr> msg_body = Some s, msg_attachment = None, msg_mentions = NoMentions, msg_rest = [] \<rparr>
      | MsgOther t \<Rightarrow> \<lparr> msg_body = None, msg_attachment = None, msg_mentions = NoMentions, msg_rest = [] \<rparr>)"

definition baseBodyOf :: "msg_object \<Rightarrow> string" where
  "baseBodyOf m = (case msg_body m of None \<Rightarrow> [] | Some s \<Rightarrow> s)"

definition ackEnv :: "environment \<Rightarrow> string \<Rightarrow> callback \<Rightarrow> ack_env" where
  "ackEnv e baseBody cb =
     \<lparr> env_platform = the_platform e,
       env_reqID = real_of_int (reqID (random_reqID e)),
       env_text = baseBody,
       env_callback = cb,
       env_handler = new_handler e \<rparr>"

definition sendMention ::
    "ctx \<Rightarrow> environment \<Rightarrow> message \<Rightarrow> thread_arg \<Rightarrow> tail_args \<Rightarrow> result \<times> state" where
  "sendMention ctx e msg threadArg tail =
     (let st = idle (client_listeners ctx) in
      if \<not> connected ctx then
        (case tail of
           Tail given r \<Rightarrow>
             (Threw NotConnected, if given then invoke UserCallback (Failure NotConnected) st else st)
         | ReplyAsCallback s \<Rightarrow> (if s \<noteq> [] then (Threw TypeError, st) else (Threw NotConnected, st)))
      else case threadArg of
        ThreadFunction \<Rightarrow> (Returned, st\<lparr> trace := trace st @ [ThreadCallback ThreadIDExpected] \<rparr>)
      | Thread thread \<Rightarrow>
          let cb = callbackOf tail; replyToMessage = replyOf tail in
          (case msg of
             MsgOther msgType \<Rightarrow> (Returned, invoke cb (Failure (BadMessageType msgType)) st)
           | _ \<Rightarrow>
               let m = objectOf msg; baseBody = baseBodyOf m in
               if msg_attachment m \<noteq> None then
                 (if hasSendMessage ctx
                  then (Returned, st\<lparr> trace := trace st @
                          [SendMessage (m\<lparr> msg_mentions := NoMentions \<rparr>) thread cb replyToMessage] \<rparr>)
                  else (Returned, invoke cb (Failure SendMessageUnavailable) st))
               else
                 (case msg_mentions m of
                    Mentions (x # xs) \<Rightarrow>
                      (case buildMentionData (x # xs) baseBody of
                         None \<Rightarrow> (Returned, invoke cb (Failure BuildFailed) st)
                       | Some mentionData \<Rightarrow>
                           (Returned,
                            publishWithAck (ackEnv e baseBody cb)
                              (content e thread baseBody mentionData replyToMessage) st))
                  | _ \<Rightarrow> (Returned, invoke cb (Failure MentionsRequired) st))))"

subsection \<open>Notions used to state the properties of a call\<close>

text \<open>The events that end a call: a message \<open>handleRes\<close> acts on, a publish callback
  with an error, the timer.\<close>

fun isExit :: "ack_env \<Rightarrow> event \<Rightarrow> bool" where
  "isExit env (Message topic message) = (topic = ''/ls_resp'' \<and> accepted env message \<noteq> None)"
| "isExit env (PublishCallback e) = (e \<noteq> None)"
| "isExit env TimerFired = True"

fun isOn :: "action \<Rightarrow> bool" where
  "isOn (On ev h) = True"
| "isOn a = False"

fun isRemoveListener :: "action \<Rightarrow> bool" where
  "isRemoveListener (RemoveListener ev h) = True"
| "isRemoveListener a = False"

fun isPublish :: "action \<Rightarrow> bool" where
  "isPublish (Publish topic payload qos retain) = True"
| "isPublish a = False"

fun isCallback :: "action \<Rightarrow> bool" where
  "isCallback (Callback r) = True"
| "isCallback a = False"

definition attached :: "action list \<Rightarrow> nat" where
  "attached tr = length (filter isOn tr)"

definition removed :: "action list \<Rightarrow> nat" where
  "removed tr = length (filter isRemoveListener tr)"

text \<open>The invariant of a call that started with the listeners \<open>ls0\<close>: its listener is
  registered exactly until \<open>done\<close> is set, and was attached once.\<close>

definition ack_inv :: "ack_env \<Rightarrow> nat list \<Rightarrow> state \<Rightarrow> bool" where
  "ack_inv env ls0 st =
     (listeners st = (if done_flag st then ls0 else ls0 @ [env_handler env])
      \<and> attached (trace st) = 1
      \<and> removed (trace st) = (if done_flag st then 1 else 0))"

text \<open>
  A platform and a call for the concrete examples. The parser knows three texts: a
  response to request 7, the payload of that response, and an array.
\<close>

definition sampleParse :: "string \<Rightarrow> json option" where
  \<open>sampleParse s =
     (if s = ''{"request_id":7,"payload":"{}"}''
        then Some (JObj [(''request_id'', JNum 7), (''payload'', JStr ''{}'')])
      else if s = ''{}'' then Some (JObj [])
      else if s = ''[1,2]'' then Some (JArr [JNum 1, JNum 2])
      else None)\<close>

definition samplePlatform :: platform where
  "samplePlatform =
     \<lparr> JSON_parse = sampleParse, JSON_stringify = (\<lambda>j. []), Number_toString = (\<lambda>r. []) \<rparr>"

definition sampleEnv :: "real \<Rightarrow> ack_env" where
  "sampleEnv rid =
     \<lparr> env_platform = samplePlatform, env_reqID = rid, env_text = ''hi'',
       env_callback = UserCallback, env_handler = 0 \<rparr>"

definition sampleResponse :: string where
  \<open>sampleResponse = ''{"request_id":7,"payload":"{}"}''\<close>

text \<open>A decoded payload whose \<open>step\<close> holds both tagged arrays, nested.\<close>

definition sampleStep :: json where
  "sampleStep =
     JObj [(''step'',
        JArr [JNum 1,
          JArr [JNum 5, JStr ''replaceOptimsiticMessage'', JStr ''0'', JStr ''mid.$abc''],
          JArr [JNum 1,
            JArr [JNum 5, JStr ''writeCTAIdToThreadsTable'', JArr [JNum 19, JStr ''4567'']]]])]"

text \<open>
  Notions and concrete arguments used to state the properties of \<open>sendMention\<close>.
  \<open>lacksMentions\<close>: the message has no attachment, and its \<open>mentions\<close> field is missing, not
  an array or empty (a string and a value of another type have neither field).
\<close>

fun lacksMentions :: "message \<Rightarrow> bool" where
  "lacksMentions (MsgObject m) =
     (msg_attachment m = None \<and> (case msg_mentions m of Mentions (x # xs) \<Rightarrow> False | _ \<Rightarrow> True))"
| "lacksMentions (MsgString s) = True"
| "lacksMentions (MsgOther ty) = True"

definition sampleEnvironment :: environment where
  "sampleEnvironment =
     \<lparr> the_platform = samplePlatform, random_reqID = 0, random_trace = ''MA=='',
       now_epoch = 1700000000000, now_watermark = 1700000000000,
       offlineThreadingID = JStr ''7000000000000000000'', new_handler = 0 \<rparr>"

definition online :: ctx where
  "online = \<lparr> connected = True, hasSendMessage = True, client_listeners = [] \<rparr>"

definition offline :: ctx where
  "offline = \<lparr> connected = False, hasSendMessage = True, client_listeners = [] \<rparr>"

definition emptyMentions :: msg_object where
  "emptyMentions = \<lparr> msg_body = Some ''hi'', msg_attachment = None, msg_mentions = Mentions [], msg_rest = [] \<rparr>"

definition withAttachment :: msg_object where
  "withAttachment = \<lparr> msg_body = Some ''hi'', msg_attachment = Some (JStr ''stream''),
                       msg_mentions = Mentions [alice], msg_rest = [] \<rparr>"

definition helloAlice :: msg_object where
  "helloAlice = \<lparr> msg_body = Some ''hello @Alice bye'', msg_attachment = None,
                   msg_mentions = Mentions [alice], msg_rest = [] \<rparr>"

section \<open>Properties of buildMentionData\<close>

subsection \<open>Searching forward never goes back\<close>

lemma findFrom_range:
  "needle \<noteq> [] \<Longrightarrow> findFrom needle rest k = -1 \<or> int k \<le> findFrom needle rest k"
  by (induction rest arbitrary: k) (auto, force)

lemma indexOf_ge:
  assumes "needle \<noteq> []"
  shows "indexOf s needle p = -1 \<or> p \<le> indexOf s needle p"
proof (cases "p \<le> int (length s)")
  case True
  then have "p \<le> int (clampIndex s p)" by (simp add: clampIndex_def)
  with findFrom_range [OF assms, of "drop (clampIndex s p) s" "clampIndex s p"]
  show ?thesis by (auto simp: indexOf_def)
next
  case False
  then have "drop (clampIndex s p) s = []" by (simp add: clampIndex_def)
  then show ?thesis using assms by (simp add: indexOf_def)
qed

lemma length_trim: "length (trim s) \<le> length s"
proof -
  have "length (trim s) \<le> length (dropWhile isSpace s)"
    using length_dropWhile_le [of isSpace "rev (dropWhile isSpace s)"] by (simp add: trim_def)
  also have "\<dots> \<le> length s" by (rule length_dropWhile_le)
  finally show ?thesis .
qed

lemma length_nameOf: "length (nameOf m) \<le> length (rawOf m)"
  unfolding nameOf_def stripAt_def
  by (rule order_trans [OF length_trim length_dropWhile_le])

lemma rawOf_nonempty: "nameOf m \<noteq> [] \<Longrightarrow> rawOf m \<noteq> []"
  using length_nameOf [of m] by auto

lemma toLowerCase_nonempty: "name \<noteq> [] \<Longrightarrow> toLowerCase name \<noteq> []"
  by (simp add: toLowerCase_def)

lemma strategy1_ge:
  assumes "nameOf m \<noteq> []"
  shows "fst (strategy1 base (rawOf m) (nameOf m) start) = -1
         \<or> (start \<le> fst (strategy1 base (rawOf m) (nameOf m) start)
            \<and> 0 \<le> snd (strategy1 base (rawOf m) (nameOf m) start))"
  using indexOf_ge [OF rawOf_nonempty [OF assms], of base start] length_nameOf [of m]
  by (auto simp: strategy1_def Let_def)

lemma strategy2_ge:
  assumes "name \<noteq> []" and "fst r = -1 \<or> (start \<le> fst r \<and> 0 \<le> snd r)"
  shows "fst (strategy2 base name start r) = -1
         \<or> (start \<le> fst (strategy2 base name start r) \<and> 0 \<le> snd (strategy2 base name start r))"
  using indexOf_ge [OF assms(1), of base start] assms(2)
  by (auto simp: strategy2_def)

lemma strategy3_ge:
  assumes "name \<noteq> []" and "fst r = -1 \<or> (start \<le> fst r \<and> 0 \<le> snd r)"
  shows "fst (strategy3 base name start r) = -1
         \<or> (start \<le> fst (strategy3 base name start r) \<and> 0 \<le> snd (strategy3 base name start r))"
  using indexOf_ge [OF toLowerCase_nonempty [OF assms(1)], of "toLowerCase base" start] assms(2)
  by (auto simp: strategy3_def)

lemma strategy4_ge:
  assumes "fst r = -1 \<or> (start \<le> fst r \<and> 0 \<le> snd r)"
  shows "fst (strategy4 base name start r) = -1
         \<or> (start \<le> fst (strategy4 base name start r) \<and> 0 \<le> snd (strategy4 base name start r))"
  using assms by (auto simp: strategy4_def split: option.splits)

lemma forward_ge:
  assumes "nameOf m \<noteq> []"
  shows "fst (forward base (rawOf m) (nameOf m) start) = -1
         \<or> (start \<le> fst (forward base (rawOf m) (nameOf m) start)
            \<and> 0 \<le> snd (forward base (rawOf m) (nameOf m) start))"
  unfolding forward_def
  by (intro strategy4_ge strategy3_ge strategy2_ge strategy1_ge assms)

lemma locate_ge:
  assumes "nameOf m \<noteq> []" and "0 \<le> c" and "c \<le> start"
    and "0 \<le> fst (forward base (rawOf m) (nameOf m) start) \<or> lastIndexOf base (nameOf m) = -1"
  shows "c \<le> fst (locate base (rawOf m) (nameOf m) start c)
             + snd (locate base (rawOf m) (nameOf m) start c)"
  using forward_ge [OF assms(1), of base start] assms(2,3,4)
  by (auto simp: locate_def fallback_def Let_def)

lemma mentionStep_ordered:
  assumes "ordered st"
    and "nameOf m = []
          \<or> (cursor st \<le> startOf st m
              \<and> (0 \<le> fst (forward base (rawOf m) (nameOf m) (startOf st m))
                   \<or> lastIndexOf base (nameOf m) = -1))"
  shows "ordered (mentionStep base st m)"
proof (cases "nameOf m = []")
  case True
  then show ?thesis using assms(1) by (simp add: mentionStep_def)
next
  case False
  have c: "0 \<le> cursor st" using assms(1) by (simp add: ordered_def)
  have s: "cursor st \<le> startOf st m"
    and f: "0 \<le> fst (forward base (rawOf m) (nameOf m) (startOf st m))
            \<or> lastIndexOf base (nameOf m) = -1"
    using assms(2) False by blast+
  have "cursor st \<le> fst (locate base (rawOf m) (nameOf m) (startOf st m) (cursor st))
        + snd (locate base (rawOf m) (nameOf m) (startOf st m) (cursor st))"
    by (rule locate_ge [OF False c s f])
  then show ?thesis using assms(1) False
    by (auto simp: mentionStep_def ordered_def Let_def sorted_append list_all_iff startOf_def)
qed

lemma foldl_ordered:
  "ordered st \<Longrightarrow> forwardOnly base st ms \<Longrightarrow> ordered (foldl (mentionStep base) st ms)"
proof (induction ms arbitrary: st)
  case Nil
  then show ?case by simp
next
  case (Cons m ms)
  have "ordered (mentionStep base st m)"
    using Cons.prems by (intro mentionStep_ordered) auto
  then show ?case using Cons.prems by (auto intro: Cons.IH)
qed

subsection \<open>The example of the specification\<close>

text \<open>
  C1, as the program computes it. For the body \<open>hello @Alice bye\<close> and the single mention
  \<open>{tag: "@Alice", id: "1"}\<close> with no \<open>fromIndex\<close>, strategy 1 finds \<open>@Alice\<close> at index 6
  and adds the length of the stripped marker, so the offset is 7, the index of \<open>Alice\<close>,
  and the length is 5: \<open>mention_offsets\<close> is \<open>7\<close> and \<open>mention_lengths\<close> is \<open>5\<close>.
\<close>

theorem alice_offset_7_length_5:
  "buildMentionData [alice] ''hello @Alice bye''
     = Some \<lparr> mention_ids = ''1'', mention_offsets = ''7'',
               mention_lengths = ''5'', mention_types = ''p'' \<rparr>"
  by code_simp

text \<open>
  C1 as the specification states it (offset 6) does not hold: the offset string the
  program produces for that input is not \<open>6\<close>.
\<close>

theorem alice_offset_not_6:
  "map_option mention_offsets (buildMentionData [alice] ''hello @Alice bye'') \<noteq> Some ''6''"
  by code_simp

subsection \<open>Order of the offsets\<close>

text \<open>
  C5, amended. When every \<open>fromIndex\<close> that is given lies at or after the cursor the loop
  has reached, and no mention is resolved by the last-occurrence fallback (every mention
  is skipped, or found from its start by one of the four forward strategies, or its name
  occurs nowhere in the body), the offsets are non-decreasing in input order.
\<close>

theorem offsets_nondecreasing:
  assumes "forwardOnly base initialBuild ms"
  shows "sorted (offsets (mentionLoop base ms))"
proof -
  have "ordered initialBuild" by (simp add: ordered_def initialBuild_def)
  from foldl_ordered [OF this assms] show ?thesis
    by (simp add: mentionLoop_def ordered_def)
qed

text \<open>
  Two instances: two mentions without \<open>fromIndex\<close> in textual order, and the second one
  searched from index 10, after the cursor 9 the first one leaves.
\<close>

theorem offsets_nondecreasing_witness:
  "forwardOnly ''hi @Alice and Bob'' initialBuild [alice, bob]
   \<and> sorted (offsets (mentionLoop ''hi @Alice and Bob'' [alice, bob]))
   \<and> offsets (mentionLoop ''hi @Alice and Bob'' [alice, bob]) = [4, 14]
   \<and> forwardOnly ''hi @Alice and Bob'' initialBuild [alice, bobFrom10]
   \<and> sorted (offsets (mentionLoop ''hi @Alice and Bob'' [alice, bobFrom10]))
   \<and> offsets (mentionLoop ''hi @Alice and Bob'' [alice, bobFrom10]) = [4, 14]"
proof -
  have b: "forwardOnly ''hi @Alice and Bob'' initialBuild [alice, bob]" by code_simp
  have c: "offsets (mentionLoop ''hi @Alice and Bob'' [alice, bob]) = [4, 14]" by code_simp
  have b': "forwardOnly ''hi @Alice and Bob'' initialBuild [alice, bobFrom10]" by code_simp
  have c': "offsets (mentionLoop ''hi @Alice and Bob'' [alice, bobFrom10]) = [4, 14]" by code_simp
  from offsets_nondecreasing [OF b] offsets_nondecreasing [OF b'] b c b' c'
  show ?thesis by simp
qed

text \<open>
  C5 as the specification states it does not hold. In the body \<open>Bob Alice\<close> both names
  occur, but the mentions are given in the order Alice, Bob: Alice is found at 4 and moves
  the cursor to 9, Bob is not found from 9 on, and the last-occurrence fallback puts it
  at 0. The offsets are \<open>4,0\<close>. A \<open>fromIndex\<close> does the same without the fallback: in
  \<open>Alice Bob\<close>, with Bob first and Alice searched from index 0, the offsets are \<open>6,0\<close>.
\<close>

theorem offsets_decrease_bob_alice:
  "indexOf ''Bob Alice'' (nameOf alice) 0 \<noteq> -1
   \<and> indexOf ''Bob Alice'' (nameOf bob) 0 \<noteq> -1
   \<and> offsets (mentionLoop ''Bob Alice'' [alice, bob]) = [4, 0]
   \<and> map_option mention_offsets (buildMentionData [alice, bob] ''Bob Alice'') = Some ''4,0''
   \<and> map_option mention_offsets (buildMentionData [bob, aliceFromStart] ''Alice Bob'') = Some ''6,0''"
  by code_simp

section \<open>Properties of publishWithAck\<close>

subsection \<open>The invariant of a call\<close>

lemma settle_settled: "p \<noteq> Pending \<Longrightarrow> settle r p = p"
  by (cases p) (simp_all add: settle_def)

lemma promise_cleanup [simp]: "promise (cleanup env st) = promise st"
  by (simp add: cleanup_def mqtt_removeListener_def)

lemma promise_invoke [simp]: "promise (invoke cb r st) = promise st"
  by (cases cb) (simp_all add: invoke_def)

lemma promise_step_settled:
  "promise st \<noteq> Pending \<Longrightarrow> promise (step env st e) = promise st"
  by (cases "(env, st, e)" rule: step.cases)
     (auto simp: handleRes_def resolve_def reject_def settle_settled Let_def split: option.splits)

lemma promise_run_settled:
  "promise st \<noteq> Pending \<Longrightarrow> promise (run env st es) = promise st"
  unfolding run_def
  by (induction es arbitrary: st) (simp_all add: promise_step_settled)

lemma run_append: "run env st (es @ es') = run env (run env st es) es'"
  by (simp add: run_def)

lemma removeLast_snoc [simp]: "removeLast h (ls @ [h]) = ls"
  by (simp add: removeLast_def)

lemma ack_inv_cleanup:
  "ack_inv env ls0 st \<Longrightarrow> ack_inv env ls0 (cleanup env st) \<and> done_flag (cleanup env st)"
  by (auto simp: ack_inv_def cleanup_def mqtt_removeListener_def attached_def removed_def)

lemma ack_inv_invoke [simp]: "ack_inv env ls0 (invoke cb r st) = ack_inv env ls0 st"
  by (cases cb) (simp_all add: ack_inv_def invoke_def attached_def removed_def)

lemma done_invoke [simp]: "done_flag (invoke cb r st) = done_flag st"
  by (cases cb) (simp_all add: invoke_def)

lemma ack_inv_resolve [simp]: "ack_inv env ls0 (resolve b st) = ack_inv env ls0 st"
  by (simp add: ack_inv_def resolve_def)

lemma ack_inv_reject [simp]: "ack_inv env ls0 (reject e st) = ack_inv env ls0 st"
  by (simp add: ack_inv_def reject_def)

lemma done_resolve [simp]: "done_flag (resolve b st) = done_flag st"
  by (simp add: resolve_def)

lemma done_reject [simp]: "done_flag (reject e st) = done_flag st"
  by (simp add: reject_def)

lemma ack_inv_step: "ack_inv env ls0 st \<Longrightarrow> ack_inv env ls0 (step env st e)"
  by (cases "(env, st, e)" rule: step.cases)
     (auto simp: handleRes_def Let_def ack_inv_cleanup split: option.splits)

lemma ack_inv_run: "ack_inv env ls0 st \<Longrightarrow> ack_inv env ls0 (run env st es)"
  unfolding run_def
  by (induction es arbitrary: st) (simp_all add: ack_inv_step)

lemma ack_inv_start: "ack_inv env ls0 (publishWithAck env c (idle ls0))"
  by (simp add: ack_inv_def publishWithAck_def idle_def setTimeout_def mqtt_publish_def mqtt_on_def
      attached_def removed_def)

lemma done_step: "done_flag st \<Longrightarrow> done_flag (step env st e)"
  by (cases "(env, st, e)" rule: step.cases)
     (auto simp: handleRes_def Let_def cleanup_def split: option.splits)

lemma done_run: "done_flag st \<Longrightarrow> done_flag (run env st es)"
  unfolding run_def
  by (induction es arbitrary: st) (simp_all add: done_step)

lemma exit_step: "ack_inv env ls0 st \<Longrightarrow> isExit env e \<Longrightarrow> done_flag (step env st e)"
  by (cases "(env, st, e)" rule: step.cases)
     (auto simp: handleRes_def Let_def ack_inv_cleanup ack_inv_def split: option.splits if_splits)


lemma message_after_done:
  assumes "ack_inv env ls0 st" and "done_flag st" and "env_handler env \<notin> set ls0"
  shows "step env st (Message topic message) = st"
  using assms by (simp add: ack_inv_def)

lemma trace_step: "\<exists>rest. trace (step env st e) = trace st @ rest \<and> filter isPublish rest = []"
  by (cases "(env, st, e)" rule: step.cases; cases "env_callback env")
     (auto simp: handleRes_def Let_def cleanup_def mqtt_removeListener_def invoke_def resolve_def
        reject_def split: option.splits)

lemma trace_run: "\<exists>rest. trace (run env st es) = trace st @ rest \<and> filter isPublish rest = []"
proof (induction es arbitrary: st)
  case Nil
  then show ?case by (simp add: run_def)
next
  case (Cons e es)
  obtain r1 where r1: "trace (step env st e) = trace st @ r1" "filter isPublish r1 = []"
    using trace_step by blast
  obtain r2 where r2: "trace (run env (step env st e) es) = trace (step env st e) @ r2"
      "filter isPublish r2 = []"
    using Cons.IH by blast
  have "trace (run env st (e # es)) = trace st @ (r1 @ r2)" using r1 r2 by (simp add: run_def)
  moreover have "filter isPublish (r1 @ r2) = []" using r1 r2 by simp
  ultimately show ?case by blast
qed

subsection \<open>Messages that are not the response\<close>

text \<open>
  C2. A message on the response channel \<open>/ls_resp\<close> that fails the first decode stage (the
  outer envelope), or the second (the nested payload), or whose \<open>request_id\<close> is not the
  caller's identifier, leaves the state of the call as it was: the promise is not settled,
  the callback is not invoked, the listener stays, nothing is added to the trace. This
  holds in every state, whether the transport delivers the message or calls \<open>handleRes\<close>
  directly.
\<close>

theorem unmatched_message_skipped:
  assumes "decodeOuter (env_platform env) message = None
     \<or> (\<exists>j. decodeOuter (env_platform env) message = Some j
              \<and> decodeInner (env_platform env) j = None)
     \<or> (\<exists>j jsonMsg. decodeOuter (env_platform env) message = Some j
              \<and> decodeInner (env_platform env) j = Some jsonMsg
              \<and> getProp jsonMsg ''request_id'' \<noteq> Some (JNum (env_reqID env)))"
  shows "handleRes env ''/ls_resp'' message st = st
       \<and> step env st (Message ''/ls_resp'' message) = st"
proof -
  have "accepted env message = None"
    using assms by (auto simp: accepted_def split: option.splits)
  then show ?thesis by (simp add: handleRes_def)
qed

text \<open>
  An instance: the response to request 7 decodes in both stages, and a call that waits
  for request 123 skips it.
\<close>

theorem unmatched_message_skipped_witness:
  "decodeOuter samplePlatform sampleResponse
      = Some (JObj [(''request_id'', JNum 7), (''payload'', JStr ''{}'')])
   \<and> decodeInner samplePlatform (JObj [(''request_id'', JNum 7), (''payload'', JStr ''{}'')])
      = Some (JObj [(''request_id'', JNum 7), (''payload'', JObj [])])
   \<and> getProp (JObj [(''request_id'', JNum 7), (''payload'', JObj [])]) ''request_id''
      \<noteq> Some (JNum 123)
   \<and> step (sampleEnv 123) (publishWithAck (sampleEnv 123) JNull (idle []))
        (Message ''/ls_resp'' sampleResponse)
      = publishWithAck (sampleEnv 123) JNull (idle [])"
proof -
  have a: "decodeOuter samplePlatform sampleResponse
      = Some (JObj [(''request_id'', JNum 7), (''payload'', JStr ''{}'')])"
    by (simp add: decodeOuter_def samplePlatform_def sampleParse_def sampleResponse_def)
  have b: "decodeInner samplePlatform (JObj [(''request_id'', JNum 7), (''payload'', JStr ''{}'')])
      = Some (JObj [(''request_id'', JNum 7), (''payload'', JObj [])])"
    by (simp add: decodeInner_def samplePlatform_def sampleParse_def)
  have c: "getProp (JObj [(''request_id'', JNum 7), (''payload'', JObj [])]) ''request_id''
      \<noteq> Some (JNum 123)"
    by (simp add: getProp_def)
  have p: "env_platform (sampleEnv 123) = samplePlatform" "env_reqID (sampleEnv 123) = 123"
    by (simp_all add: sampleEnv_def)
  from unmatched_message_skipped [of "sampleEnv 123" sampleResponse
      "publishWithAck (sampleEnv 123) JNull (idle [])"] a b c p
  show ?thesis by simp
qed

subsection \<open>At most one settlement\<close>

text \<open>
  The promise that \<open>publishWithAck\<close> returns settles at most once, as every promise of the
  platform does: once it is settled, no further events change it. And for a call whose
  listener is a new one, a message on the response channel after the timer has fired,
  matching or not, changes nothing at all: the listener is gone and \<open>handleRes\<close> is not
  called.
\<close>

lemma promise_settles_at_most_once:
  assumes "env_handler env \<notin> set ls0"
  shows "(promise (run env (publishWithAck env c (idle ls0)) es) \<noteq> Pending \<longrightarrow>
            promise (run env (publishWithAck env c (idle ls0)) (es @ es'))
            = promise (run env (publishWithAck env c (idle ls0)) es))
       \<and> run env (publishWithAck env c (idle ls0)) (es @ TimerFired # es' @ [Message topic message])
         = run env (publishWithAck env c (idle ls0)) (es @ TimerFired # es')"
proof
  show "promise (run env (publishWithAck env c (idle ls0)) es) \<noteq> Pending \<longrightarrow>
            promise (run env (publishWithAck env c (idle ls0)) (es @ es'))
            = promise (run env (publishWithAck env c (idle ls0)) es)"
    by (simp add: run_append promise_run_settled)
next
  let ?st = "run env (publishWithAck env c (idle ls0)) es"
  have i: "ack_inv env ls0 ?st" by (intro ack_inv_run ack_inv_start)
  have "done_flag (step env ?st TimerFired)"
    by (rule exit_step [OF i]) simp
  then have d: "done_flag (run env (step env ?st TimerFired) es')" by (rule done_run)
  have j: "ack_inv env ls0 (run env (step env ?st TimerFired) es')"
    by (intro ack_inv_run ack_inv_step i)
  have "step env (run env (step env ?st TimerFired) es') (Message topic message)
          = run env (step env ?st TimerFired) es'"
    by (rule message_after_done [OF j d assms])
  then show "run env (publishWithAck env c (idle ls0)) (es @ TimerFired # es' @ [Message topic message])
         = run env (publishWithAck env c (idle ls0)) (es @ TimerFired # es')"
    by (simp add: run_def)
qed

text \<open>
  C3. The result of a call is delivered through the promise and, when the caller gave
  one, through the callback, and the callback is not protected as the promise is: the
  publish callback does not test \<open>done\<close>. When the matching response has settled the call
  and the transport then reports a publish error, the promise stays fulfilled, but the
  caller's callback is invoked a second time, with the error: the call settles twice for
  the caller. A response after the timeout does not settle it again; a publish error
  after the timeout does (see C6, the same defect).
\<close>

theorem response_then_publish_error_reports_both:
  "filter isCallback (trace (run (sampleEnv 7) (publishWithAck (sampleEnv 7) JNull (idle []))
       [Message ''/ls_resp'' sampleResponse, PublishCallback (Some ''Connection closed'')]))
     = [Callback (Success \<lparr> body = Some ''hi'', messageID = None, threadID = None \<rparr>),
        Callback (Failure (Transport ''Connection closed''))]
   \<and> promise (run (sampleEnv 7) (publishWithAck (sampleEnv 7) JNull (idle []))
       [Message ''/ls_resp'' sampleResponse, PublishCallback (Some ''Connection closed'')])
     = Fulfilled \<lparr> body = Some ''hi'', messageID = None, threadID = None \<rparr>"
proof -
  have a: "accepted (sampleEnv 7) sampleResponse
             = Some (JObj [(''request_id'', JNum 7), (''payload'', JObj [])])"
    by (simp add: accepted_def decodeOuter_def decodeInner_def getProp_def sampleEnv_def
        samplePlatform_def sampleParse_def sampleResponse_def)
  have e: "env_callback (sampleEnv 7) = UserCallback" "env_handler (sampleEnv 7) = 0"
      "env_text (sampleEnv 7) = ''hi''"
    by (simp_all add: sampleEnv_def)
  show ?thesis
    by (simp add: run_def publishWithAck_def idle_def setTimeout_def mqtt_publish_def mqtt_on_def
        handleRes_def a e Let_def extractIdsFromPayload_def getProp_def
        resolve_def reject_def invoke_def cleanup_def mqtt_removeListener_def settle_def)
qed

subsection \<open>One listener attached, one removed\<close>



subsection \<open>The listener comes first\<close>

text \<open>
  C8. \<open>publishWithAck\<close> registers its listener before it publishes. The state \<open>publish\<close>
  is called in already holds the listener among the listeners of the transport, and the
  only thing done before is \<open>on\<close>. The listener is still registered when the call returns,
  so any message the transport emits afterwards, however early, is given to \<open>handleRes\<close>:
  no response can arrive before a listener exists. In the record of every run \<open>on\<close> comes
  first and \<open>publish\<close> on \<open>/ls_req\<close> second, and no later event publishes again.
\<close>

theorem listener_registered_before_publish:
  "(\<exists>s. publishWithAck env c (idle ls0)
            = setTimeout 15000
                (mqtt_publish ''/ls_req'' (JSON_stringify (env_platform env) c) 1 False s)
         \<and> env_handler env \<in> set (listeners s)
         \<and> trace s = [On ''message'' (env_handler env)])
   \<and> env_handler env \<in> set (listeners (publishWithAck env c (idle ls0)))
   \<and> step env (publishWithAck env c (idle ls0)) (Message topic message)
       = handleRes env topic message (publishWithAck env c (idle ls0))
   \<and> take 2 (trace (run env (publishWithAck env c (idle ls0)) es))
       = [On ''message'' (env_handler env),
          Publish ''/ls_req'' (JSON_stringify (env_platform env) c) 1 False]
   \<and> filter isPublish (trace (run env (publishWithAck env c (idle ls0)) es))
       = [Publish ''/ls_req'' (JSON_stringify (env_platform env) c) 1 False]"
proof -
  let ?s = "mqtt_on (env_handler env) ((idle ls0)\<lparr> done_flag := False, promise := Pending \<rparr>)"
  have a: "publishWithAck env c (idle ls0)
            = setTimeout 15000
                (mqtt_publish ''/ls_req'' (JSON_stringify (env_platform env) c) 1 False ?s)"
    by (simp add: publishWithAck_def)
  have b: "env_handler env \<in> set (listeners ?s)" "trace ?s = [On ''message'' (env_handler env)]"
    by (simp_all add: mqtt_on_def idle_def)
  have l: "env_handler env \<in> set (listeners (publishWithAck env c (idle ls0)))"
    by (simp add: publishWithAck_def setTimeout_def mqtt_publish_def mqtt_on_def)
  obtain rest where r: "trace (run env (publishWithAck env c (idle ls0)) es)
      = trace (publishWithAck env c (idle ls0)) @ rest" "filter isPublish rest = []"
    using trace_run by blast
  have t: "trace (publishWithAck env c (idle ls0))
      = [On ''message'' (env_handler env),
         Publish ''/ls_req'' (JSON_stringify (env_platform env) c) 1 False,
         SetTimeout 15000]"
    by (simp add: publishWithAck_def idle_def setTimeout_def mqtt_publish_def mqtt_on_def)
  have "\<exists>s. publishWithAck env c (idle ls0)
            = setTimeout 15000
                (mqtt_publish ''/ls_req'' (JSON_stringify (env_platform env) c) 1 False s)
         \<and> env_handler env \<in> set (listeners s)
         \<and> trace s = [On ''message'' (env_handler env)]"
    using a b by blast
  then show ?thesis using l r t by simp
qed

subsection \<open>The response that is acted on\<close>

text \<open>
  The first message that decodes and carries the caller's identifier fulfils the promise
  with the text and the identifiers found in its payload, and removes the listener.
\<close>

lemma matching_response_fulfils:
  assumes "accepted env message = Some jsonMsg"
  shows "promise (step env (publishWithAck env c (idle ls0)) (Message ''/ls_resp'' message))
           = Fulfilled \<lparr> body = (if env_text env = [] then None else Some (env_text env)),
                         messageID = ex_messageID (extractIdsFromPayload (env_platform env)
                                        (getProp jsonMsg ''payload'')),
                         threadID = ex_threadID (extractIdsFromPayload (env_platform env)
                                        (getProp jsonMsg ''payload'')) \<rparr>
       \<and> listeners (step env (publishWithAck env c (idle ls0)) (Message ''/ls_resp'' message)) = ls0"
  using assms
  by (cases "env_callback env")
     (simp_all add: publishWithAck_def idle_def setTimeout_def mqtt_publish_def mqtt_on_def
      handleRes_def Let_def resolve_def invoke_def cleanup_def mqtt_removeListener_def settle_def)

lemma extractIds_example:
  "extractIdsFromPayload samplePlatform (Some sampleStep)
     = \<lparr> ex_threadID = Some ''4567'', ex_messageID = Some ''mid.$abc'' \<rparr>"
  by (simp add: extractIdsFromPayload_def sampleStep_def getProp_def visit_def elemAt_def String_def)

subsection \<open>A publish error and the timeout\<close>

text \<open>
  In one order the two failures exclude each other: a publish error sets \<open>done\<close>, and the
  timer that fires afterwards changes nothing.
\<close>

lemma publish_error_suppresses_timeout:
  "step env (step env st (PublishCallback (Some e))) TimerFired
     = step env st (PublishCallback (Some e))"
proof -
  have "done_flag (step env st (PublishCallback (Some e)))"
    by (simp add: cleanup_def mqtt_removeListener_def)
  then show ?thesis by simp
qed

text \<open>
  C6. The other order is not symmetric: the publish callback does not test \<open>done\<close>. When
  the timer fires first and the transport then reports a publish error, the promise stays
  rejected with the timeout, but the caller's callback is invoked a second time, with the
  transport's error: both failures are reported for the one call.
\<close>

theorem timeout_then_publish_error_reports_both:
  "filter isCallback (trace (run (sampleEnv 7) (publishWithAck (sampleEnv 7) JNull (idle []))
       [TimerFired, PublishCallback (Some ''Connection closed'')]))
     = [Callback (Failure Timeout), Callback (Failure (Transport ''Connection closed''))]
   \<and> promise (run (sampleEnv 7) (publishWithAck (sampleEnv 7) JNull (idle []))
       [TimerFired, PublishCallback (Some ''Connection closed'')])
     = Rejected Timeout"
  by (simp add: run_def publishWithAck_def idle_def setTimeout_def mqtt_publish_def mqtt_on_def
      reject_def invoke_def cleanup_def mqtt_removeListener_def settle_def sampleEnv_def)


section \<open>Properties of sendMention\<close>

subsection \<open>Rounding to a double\<close>

lemma ulp_pos: "0 < ulp x"
  by (simp add: ulp_def)

lemma roundTiesEven_cases: "roundTiesEven x = \<lfloor>x\<rfloor> \<or> roundTiesEven x = \<lfloor>x\<rfloor> + 1"
  by (simp add: roundTiesEven_def)

lemma roundTiesEven_of_int [simp]: "roundTiesEven (of_int n) = n"
  by (simp add: roundTiesEven_def)

lemma roundTiesEven_mono:
  assumes "x \<le> y"
  shows "roundTiesEven x \<le> roundTiesEven y"
proof (cases "\<lfloor>x\<rfloor> < \<lfloor>y\<rfloor>")
  case True
  have "roundTiesEven x \<le> \<lfloor>x\<rfloor> + 1" using roundTiesEven_cases [of x] by auto
  also have "\<dots> \<le> \<lfloor>y\<rfloor>" using True by simp
  also have "\<dots> \<le> roundTiesEven y" using roundTiesEven_cases [of y] by auto
  finally show ?thesis .
next
  case False
  then have "\<lfloor>x\<rfloor> = \<lfloor>y\<rfloor>" using floor_mono [OF assms] by simp
  then show ?thesis using assms by (auto simp: roundTiesEven_def)
qed

lemma exponentOf_mono: "0 < x \<Longrightarrow> x \<le> y \<Longrightarrow> exponentOf x \<le> exponentOf y"
  unfolding exponentOf_def
  by (intro max.mono floor_mono) simp_all

lemma exponentOf_eq:
  assumes "2 powr real_of_int k \<le> x" and "x < 2 powr real_of_int (k + 1)" and "- 1022 \<le> k"
  shows "exponentOf x = k"
proof -
  have "0 < x" using assms(1) by (smt (verit) powr_gt_zero)
  then have "\<lfloor>log 2 x\<rfloor> = k"
    using assms(1,2) by (simp add: floor_log_eq_powr_iff)
  then show ?thesis using assms(3) \<open>0 < x\<close> by (simp add: exponentOf_def)
qed

lemma floor_log_bounds:
  assumes "0 < x"
  shows "2 powr real_of_int \<lfloor>log 2 x\<rfloor> \<le> x" and "x < 2 powr real_of_int (\<lfloor>log 2 x\<rfloor> + 1)"
  using floor_log_eq_powr_iff [of x 2 "\<lfloor>log 2 x\<rfloor>"] assms by simp_all

lemma below_next_power:
  assumes "0 < x"
  shows "x < 2 powr real_of_int (exponentOf x + 1)"
proof -
  have "\<lfloor>log 2 x\<rfloor> + 1 \<le> exponentOf x + 1" using assms by (simp add: exponentOf_def)
  then have "(2::real) powr real_of_int (\<lfloor>log 2 x\<rfloor> + 1) \<le> 2 powr real_of_int (exponentOf x + 1)"
    by simp
  with floor_log_bounds(2) [OF assms] show ?thesis by linarith
qed

lemma above_power:
  assumes "0 < x" and "- 1022 < exponentOf x"
  shows "2 powr real_of_int (exponentOf x) \<le> x"
proof -
  have e: "exponentOf x = \<lfloor>log 2 x\<rfloor>"
    using assms by (simp add: exponentOf_def max_def split: if_splits)
  show ?thesis unfolding e by (rule floor_log_bounds(1) [OF assms(1)])
qed

lemma ulp_times_53: "9007199254740992 * ulp x = 2 powr real_of_int (exponentOf x + 1)"
proof -
  have "real_of_int (exponentOf x + 1) = 53 + real_of_int (exponentOf x - 52)"
    by simp
  then have "(2::real) powr real_of_int (exponentOf x + 1) = 2 powr (53 + real_of_int (exponentOf x - 52))"
    by (simp only:)
  also have "\<dots> = 2 powr 53 * 2 powr real_of_int (exponentOf x - 52)"
    by (rule powr_add)
  also have "(2::real) powr 53 = 9007199254740992" by simp
  finally show ?thesis by (simp add: ulp_def)
qed

lemma ulp_times_52: "4503599627370496 * ulp x = 2 powr real_of_int (exponentOf x)"
proof -
  have "real_of_int (exponentOf x) = 52 + real_of_int (exponentOf x - 52)"
    by simp
  then have "(2::real) powr real_of_int (exponentOf x) = 2 powr (52 + real_of_int (exponentOf x - 52))"
    by (simp only:)
  also have "\<dots> = 2 powr 52 * 2 powr real_of_int (exponentOf x - 52)"
    by (rule powr_add)
  also have "(2::real) powr 52 = 4503599627370496" by simp
  finally show ?thesis by (simp add: ulp_def)
qed

lemma fl_upper:
  assumes "0 < x"
  shows "fl x \<le> 2 powr real_of_int (exponentOf x + 1)"
proof -
  have "x < 9007199254740992 * ulp x"
    using below_next_power [OF assms] by (simp only: ulp_times_53)
  then have "x / ulp x \<le> real_of_int 9007199254740992"
    using ulp_pos [of x] by (simp add: pos_divide_le_eq)
  from roundTiesEven_mono [OF this]
  have "roundTiesEven (x / ulp x) \<le> 9007199254740992" by (simp only: roundTiesEven_of_int)
  then have "real_of_int (roundTiesEven (x / ulp x)) \<le> 9007199254740992" by linarith
  then have "real_of_int (roundTiesEven (x / ulp x)) * ulp x \<le> 9007199254740992 * ulp x"
    using ulp_pos [of x] by (simp only: mult_right_mono less_imp_le)
  then have "real_of_int (roundTiesEven (x / ulp x)) * ulp x \<le> 2 powr real_of_int (exponentOf x + 1)"
    by (simp only: ulp_times_53)
  then show ?thesis using assms by (simp add: fl_def)
qed

lemma fl_lower:
  assumes "0 < x" and "- 1022 < exponentOf x"
  shows "2 powr real_of_int (exponentOf x) \<le> fl x"
proof -
  have "4503599627370496 * ulp x \<le> x"
    using above_power [OF assms] by (simp only: ulp_times_52)
  then have "real_of_int 4503599627370496 \<le> x / ulp x"
    using ulp_pos [of x] by (simp add: pos_le_divide_eq)
  from roundTiesEven_mono [OF this]
  have "4503599627370496 \<le> roundTiesEven (x / ulp x)" by (simp only: roundTiesEven_of_int)
  then have "4503599627370496 \<le> real_of_int (roundTiesEven (x / ulp x))" by linarith
  then have "4503599627370496 * ulp x \<le> real_of_int (roundTiesEven (x / ulp x)) * ulp x"
    using ulp_pos [of x] by (simp only: mult_right_mono less_imp_le)
  then have "2 powr real_of_int (exponentOf x) \<le> real_of_int (roundTiesEven (x / ulp x)) * ulp x"
    by (simp only: ulp_times_52)
  then show ?thesis using assms by (simp add: fl_def)
qed

lemma fl_nonneg: "0 \<le> x \<Longrightarrow> 0 \<le> fl x"
proof -
  assume "0 \<le> x"
  then have "0 \<le> x / ulp x" using ulp_pos [of x] by simp
  then have "real_of_int 0 \<le> x / ulp x" by simp
  from roundTiesEven_mono [OF this] have "0 \<le> roundTiesEven (x / ulp x)"
    by (simp only: roundTiesEven_of_int)
  then show ?thesis using ulp_pos [of x] by (simp add: fl_def)
qed

lemma fl_mono:
  assumes "0 < x" and "x \<le> y"
  shows "fl x \<le> fl y"
proof (cases "exponentOf x = exponentOf y")
  case True
  then have u: "ulp x = ulp y" by (simp add: ulp_def)
  have "x / ulp y \<le> y / ulp y" using assms(2) ulp_pos [of y] by (simp add: divide_right_mono)
  from roundTiesEven_mono [OF this]
  have "real_of_int (roundTiesEven (x / ulp y)) * ulp y \<le> real_of_int (roundTiesEven (y / ulp y)) * ulp y"
    using ulp_pos [of y] by (simp add: mult_right_mono)
  then show ?thesis using assms u by (simp add: fl_def)
next
  case False
  then have lt: "exponentOf x < exponentOf y"
    using exponentOf_mono [OF assms] by simp
  have y: "0 < y" using assms by simp
  have "- 1022 \<le> exponentOf x" by (simp add: exponentOf_def)
  then have "- 1022 < exponentOf y" using lt by simp
  from fl_lower [OF y this] have "2 powr real_of_int (exponentOf y) \<le> fl y" .
  moreover have "fl x \<le> 2 powr real_of_int (exponentOf x + 1)" by (rule fl_upper [OF assms(1)])
  moreover have "(2::real) powr real_of_int (exponentOf x + 1) \<le> 2 powr real_of_int (exponentOf y)"
    using lt by simp
  ultimately show ?thesis by linarith
qed

lemma fl_value:
  assumes "2 powr real_of_int k \<le> x" and "x < 2 powr real_of_int (k + 1)" and "- 1022 \<le> k"
    and "roundTiesEven (x / 2 powr real_of_int (k - 52)) = m"
  shows "fl x = real_of_int m * 2 powr real_of_int (k - 52)"
proof -
  have e: "exponentOf x = k" by (rule exponentOf_eq [OF assms(1-3)])
  have "0 < x" using assms(1) by (smt (verit) powr_gt_zero)
  then show ?thesis using assms(4) by (simp add: fl_def ulp_def e)
qed

lemma fl_100: "fl 100 = 100"
proof -
  have "fl 100 = real_of_int (100 * 2 ^ 46) * 2 powr real_of_int (6 - 52)"
  proof (rule fl_value)
    have "(100::real) / 2 powr real_of_int (6 - 52) = real_of_int (100 * 2 ^ 46)"
      by (simp add: powr_minus field_simps)
    then show "roundTiesEven (100 / 2 powr real_of_int (6 - 52)) = 100 * 2 ^ 46"
      by (simp only: roundTiesEven_of_int)
  qed simp_all
  then show ?thesis by (simp add: powr_minus)
qed

lemma powr_m43: "(2::real) powr - 43 = 1 / 8796093022208"
  by (simp add: powr_minus)

lemma fl_0: "fl 0 = 0"
  by (simp add: fl_def)

lemma fl_largest_product:
  "fl (900 * (1 - 1 / 9007199254740992)) = 900 - 1 / 8796093022208"
proof -
  have r: "roundTiesEven (900 * (1 - 1 / 9007199254740992) / 2 powr real_of_int (9 - 52))
            = 900 * 8796093022208 - 1"
  proof -
    have v: "900 * (1 - 1 / 9007199254740992) / 2 powr real_of_int (9 - 52)
               = (real_of_int (900 * 8796093022208 - 1) + 31 / 256 :: real)"
      by (simp add: powr_m43)
    have f: "\<lfloor>real_of_int (900 * 8796093022208 - 1) + 31 / 256 :: real\<rfloor> = 900 * 8796093022208 - 1"
      by (rule floor_unique) simp_all
    show ?thesis unfolding v roundTiesEven_def f by simp
  qed
  have "fl (900 * (1 - 1 / 9007199254740992))
          = real_of_int (900 * 8796093022208 - 1) * 2 powr real_of_int (9 - 52)"
    by (rule fl_value [OF _ _ _ r]) simp_all
  then show ?thesis by (simp add: powr_m43)
qed

lemma fl_largest_sum:
  "fl (1000 - 1 / 8796093022208) = 1000 - 1 / 8796093022208"
proof -
  have r: "roundTiesEven ((1000 - 1 / 8796093022208) / 2 powr real_of_int (9 - 52))
            = 1000 * 8796093022208 - 1"
  proof -
    have v: "(1000 - 1 / 8796093022208) / 2 powr real_of_int (9 - 52)
               = (real_of_int (1000 * 8796093022208 - 1) :: real)"
      by (simp add: powr_m43)
    show ?thesis unfolding v by (rule roundTiesEven_of_int)
  qed
  have "fl (1000 - 1 / 8796093022208)
          = real_of_int (1000 * 8796093022208 - 1) * 2 powr real_of_int (9 - 52)"
    by (rule fl_value [OF _ _ _ r]) simp_all
  then show ?thesis by (simp add: powr_m43)
qed

lemma reqID_range:
  assumes "0 \<le> r" and "r \<le> 1 - 1 / 9007199254740992"
  shows "100 \<le> reqID r \<and> reqID r \<le> 999"
proof -
  have p0: "0 \<le> fl (r * 900)" using assms(1) by (intro fl_nonneg) simp
  have p1: "fl (r * 900) \<le> 900 - 1 / 8796093022208"
  proof (cases "r = 0")
    case True
    then show ?thesis by (simp add: fl_0)
  next
    case False
    then have "0 < r * 900" using assms(1) by simp
    moreover have "r * 900 \<le> 900 * (1 - 1 / 9007199254740992)" using assms(2) by simp
    ultimately have "fl (r * 900) \<le> fl (900 * (1 - 1 / 9007199254740992))" by (rule fl_mono)
    then show ?thesis by (simp only: fl_largest_product)
  qed
  have "fl 100 \<le> fl (100 + fl (r * 900))" using p0 by (intro fl_mono) simp_all
  then have lo: "100 \<le> fl (100 + fl (r * 900))" by (simp only: fl_100)
  have "fl (100 + fl (r * 900)) \<le> fl (1000 - 1 / 8796093022208)"
    using p0 p1 by (intro fl_mono) simp_all
  then have hi: "fl (100 + fl (r * 900)) \<le> 1000 - 1 / 8796093022208"
    by (simp only: fl_largest_sum)
  have "100 \<le> \<lfloor>fl (100 + fl (r * 900))\<rfloor>" using lo by (simp add: le_floor_iff)
  moreover have "\<lfloor>fl (100 + fl (r * 900))\<rfloor> < 1000"
    using hi by (simp add: floor_less_iff)
  ultimately show ?thesis by (simp add: reqID_def)
qed

lemma reqID_0: "reqID 0 = 100"
  by (simp add: reqID_def fl_0 fl_100)

subsection \<open>Validation of the mentions\<close>

lemma isPublish_invoke [simp]:
  "filter isPublish (trace (invoke cb r st)) = filter isPublish (trace st)"
  by (cases cb) (simp_all add: invoke_def)

text \<open>
  C7, amended. When the client is connected and \<open>threadID\<close> is not a function, a message
  with no attachment whose \<open>mentions\<close> field is missing, not an array or empty makes
  \<open>sendMention\<close> return at once with one error passed to the callback (the caller's, or the
  default one, which rejects \<open>returnPromise\<close>) and nothing else done: the error is the one
  that asks for a mentions array, or for a message that is neither a string nor an object
  the one about its type. Nothing is published.
\<close>

theorem missing_mentions_rejected_before_publish:
  assumes "connected ctx" and "lacksMentions msg"
  shows "sendMention ctx e msg (Thread thread) tail
           = (Returned,
              invoke (callbackOf tail)
                (Failure (case msg of MsgOther ty \<Rightarrow> BadMessageType ty | _ \<Rightarrow> MentionsRequired))
                (idle (client_listeners ctx)))
       \<and> filter isPublish (trace (snd (sendMention ctx e msg (Thread thread) tail))) = []"
proof -
  have "sendMention ctx e msg (Thread thread) tail
           = (Returned,
              invoke (callbackOf tail)
                (Failure (case msg of MsgOther ty \<Rightarrow> BadMessageType ty | _ \<Rightarrow> MentionsRequired))
                (idle (client_listeners ctx)))"
    using assms
    by (cases msg) (auto simp: sendMention_def Let_def objectOf_def
        split: mentions_field.splits list.splits)
  then show ?thesis by (simp add: idle_def)
qed

theorem missing_mentions_rejected_before_publish_witness:
  "connected online \<and> lacksMentions (MsgObject emptyMentions)
   \<and> sendMention online sampleEnvironment (MsgObject emptyMentions) (Thread ''t1'') (Tail True None)
       = (Returned, \<lparr> done_flag = False, listeners = [], promise = Pending, returnPromise = Pending,
                      trace = [Callback (Failure MentionsRequired)] \<rparr>)"
proof -
  have a: "connected online" by (simp add: online_def)
  have b: "lacksMentions (MsgObject emptyMentions)" by (simp add: emptyMentions_def)
  from missing_mentions_rejected_before_publish [OF a b, of sampleEnvironment "''t1''" "Tail True None"]
  show ?thesis using a b by (simp add: callbackOf_def invoke_def idle_def online_def)
qed

text \<open>
  C7 as the specification states it does not hold for every call: with a client that is
  not connected the call throws the connection error and invokes no callback, and with a
  function as \<open>threadID\<close> the error goes to that function, not to the callback.
\<close>

theorem disconnected_client_throws_before_validation:
  "sendMention offline sampleEnvironment (MsgObject emptyMentions) (Thread ''t1'') (Tail False None)
     = (Threw NotConnected, idle [])
   \<and> sendMention online sampleEnvironment (MsgObject emptyMentions) ThreadFunction (Tail True None)
     = (Returned, \<lparr> done_flag = False, listeners = [], promise = Pending, returnPromise = Pending,
                    trace = [ThreadCallback ThreadIDExpected] \<rparr>)"
  by (simp add: sendMention_def offline_def online_def idle_def)

subsection \<open>Messages with an attachment\<close>

text \<open>
  C10, amended. When the client is connected and \<open>threadID\<close> is not a function, a message
  object with a non-null attachment makes \<open>sendMention\<close> do exactly one thing: call
  \<open>api.sendMessage\<close> with a copy of the message without its \<open>mentions\<close>, the thread, the
  callback and \<open>replyToMessage\<close>, or, when \<open>api.sendMessage\<close> does not exist, pass the error
  saying so to the callback. Whatever the \<open>mentions\<close> field holds, it is not validated, no
  mention data is built and nothing is published.
\<close>

theorem attachment_delegates_to_sendMessage:
  assumes "connected ctx" and "msg_attachment m \<noteq> None"
  shows "sendMention ctx e (MsgObject m) (Thread thread) tail
           = (Returned,
              if hasSendMessage ctx
              then (idle (client_listeners ctx))
                     \<lparr> trace := [SendMessage (m\<lparr> msg_mentions := NoMentions \<rparr>) thread
                                   (callbackOf tail) (replyOf tail)] \<rparr>
              else invoke (callbackOf tail) (Failure SendMessageUnavailable)
                     (idle (client_listeners ctx)))
       \<and> filter isPublish (trace (snd (sendMention ctx e (MsgObject m) (Thread thread) tail))) = []"
  using assms by (auto simp: sendMention_def Let_def objectOf_def idle_def)

theorem attachment_delegates_to_sendMessage_witness:
  "connected online \<and> msg_attachment withAttachment \<noteq> None
   \<and> sendMention online sampleEnvironment (MsgObject withAttachment) (Thread ''t1'') (Tail True None)
       = (Returned, \<lparr> done_flag = False, listeners = [], promise = Pending, returnPromise = Pending,
            trace = [SendMessage
                       \<lparr> msg_body = Some ''hi'', msg_attachment = Some (JStr ''stream''),
                         msg_mentions = NoMentions, msg_rest = [] \<rparr>
                       ''t1'' UserCallback None] \<rparr>)"
proof -
  have a: "connected online" by (simp add: online_def)
  have b: "msg_attachment withAttachment \<noteq> None" by (simp add: withAttachment_def)
  from attachment_delegates_to_sendMessage [OF a b, of sampleEnvironment "''t1''" "Tail True None"]
  show ?thesis using a b
    by (simp add: callbackOf_def replyOf_def idle_def online_def withAttachment_def)
qed

text \<open>
  C10 as the specification states it does not hold for every call: with a client that is
  not connected the call throws and delegates nothing, and with a function as \<open>threadID\<close>
  it reports the missing thread to that function and delegates nothing.
\<close>

theorem attachment_with_disconnected_client_throws:
  "sendMention offline sampleEnvironment (MsgObject withAttachment) (Thread ''t1'') (Tail False None)
     = (Threw NotConnected, idle [])
   \<and> sendMention online sampleEnvironment (MsgObject withAttachment) ThreadFunction (Tail True None)
     = (Returned, \<lparr> done_flag = False, listeners = [], promise = Pending, returnPromise = Pending,
                    trace = [ThreadCallback ThreadIDExpected] \<rparr>)"
  by (simp add: sendMention_def offline_def online_def idle_def)

subsection \<open>The identifier on the envelope\<close>

lemma published_payload:
  assumes "Publish topic payload qos retain \<in> set (trace (snd (sendMention ctx e msg threadArg tail)))"
  shows "\<exists>thread baseBody mentionData replyToMessage.
           payload = JSON_stringify (the_platform e)
                       (content e thread baseBody mentionData replyToMessage)"
proof -
  have n: "\<And>cb r st. Publish topic payload qos retain \<in> set (trace (invoke cb r st))
             \<Longrightarrow> Publish topic payload qos retain \<in> set (trace st)"
    by (case_tac cb) (auto simp: invoke_def)
  show ?thesis
    using assms
    by (auto simp: sendMention_def Let_def idle_def publishWithAck_def setTimeout_def
        mqtt_publish_def mqtt_on_def ackEnv_def
        split: if_splits tail_args.splits thread_arg.splits message.splits option.splits
          mentions_field.splits list.splits dest!: n)
qed

text \<open>
  C9. \<open>Math.random()\<close> returns a double that is at least 0 and less than 1, so at most
  \<open>1 - 2^-53\<close>. For every such value, whatever \<open>sendMention\<close> publishes is the serialised
  form of the envelope \<open>content\<close>, whose \<open>request_id\<close> is the integer \<open>reqID\<close>, and that
  integer is from 100 to 999.
\<close>

theorem request_id_in_range:
  assumes "0 \<le> random_reqID e" and "random_reqID e \<le> 1 - 1 / 9007199254740992"
    and "Publish topic payload qos retain \<in> set (trace (snd (sendMention ctx e msg threadArg tail)))"
  shows "\<exists>thread baseBody mentionData replyToMessage.
           payload = JSON_stringify (the_platform e)
                       (content e thread baseBody mentionData replyToMessage)
           \<and> getProp (content e thread baseBody mentionData replyToMessage) ''request_id''
               = Some (JNum (real_of_int (reqID (random_reqID e))))
           \<and> 100 \<le> reqID (random_reqID e) \<and> reqID (random_reqID e) \<le> 999"
proof -
  obtain thread baseBody mentionData replyToMessage
    where p: "payload = JSON_stringify (the_platform e)
                          (content e thread baseBody mentionData replyToMessage)"
    using published_payload [OF assms(3)] by blast
  have "getProp (content e thread baseBody mentionData replyToMessage) ''request_id''
          = Some (JNum (real_of_int (reqID (random_reqID e))))"
    by (simp add: content_def getProp_def)
  with p reqID_range [OF assms(1,2)] show ?thesis by blast
qed

lemma build_helloAlice:
  "buildMentionData [alice] ''hello @Alice bye''
     = Some \<lparr> mention_ids = ''1'', mention_offsets = ''7'',
               mention_lengths = ''5'', mention_types = ''p'' \<rparr>"
  by code_simp

lemma trace_helloAlice:
  "trace (snd (sendMention online sampleEnvironment (MsgObject helloAlice) (Thread ''t1'') (Tail True None)))
     = [On ''message'' 0, Publish ''/ls_req'' [] 1 False, SetTimeout 15000]"
  by (simp add: sendMention_def Let_def online_def idle_def objectOf_def helloAlice_def
      baseBodyOf_def build_helloAlice publishWithAck_def setTimeout_def mqtt_publish_def mqtt_on_def
      ackEnv_def sampleEnvironment_def samplePlatform_def)

theorem request_id_in_range_witness:
  "0 \<le> random_reqID sampleEnvironment
   \<and> random_reqID sampleEnvironment \<le> 1 - 1 / 9007199254740992
   \<and> Publish ''/ls_req'' [] 1 False
       \<in> set (trace (snd (sendMention online sampleEnvironment (MsgObject helloAlice)
                              (Thread ''t1'') (Tail True None))))
   \<and> reqID (random_reqID sampleEnvironment) = 100
   \<and> 100 \<le> reqID (random_reqID sampleEnvironment)
   \<and> reqID (random_reqID sampleEnvironment) \<le> 999"
proof -
  have a: "0 \<le> random_reqID sampleEnvironment" by (simp add: sampleEnvironment_def)
  have b: "random_reqID sampleEnvironment \<le> 1 - 1 / 9007199254740992"
    by (simp add: sampleEnvironment_def)
  have c: "Publish ''/ls_req'' [] 1 False
       \<in> set (trace (snd (sendMention online sampleEnvironment (MsgObject helloAlice)
                              (Thread ''t1'') (Tail True None))))"
    by (simp add: trace_helloAlice)
  have d: "reqID (random_reqID sampleEnvironment) = 100"
    by (simp add: sampleEnvironment_def reqID_0)
  from request_id_in_range [OF a b c] a b c d show ?thesis by blast
qed

end
